theory Spec2Isabelle
  imports Complex_Main
begin

section \<open>The crop-region editor of \<open>src/components/ManualCropper.tsx\<close>\<close>

text \<open>
  The component is a React function component. Its \<open>useState\<close> cells, its \<open>useRef\<close>
  cells, the props it reads and the two pieces of state lifted to the host (\<open>tool\<close>,
  \<open>zoom\<close>) are the fields of one record; every handler is a function from that record to
  the updated record. The callbacks the component invokes on its host (\<open>onConfirm\<close>,
  \<open>onClose\<close>, \<open>onSelectionChange\<close>) are recorded, in order, in the field \<open>hostCalls\<close>.

  A JavaScript \<open>number\<close> is modelled as a \<open>real\<close>: the arithmetic of the handlers is
  exact here, and the rounding of IEEE doubles is outside the model. A division by zero
  (a raster of width 0) is \<open>Infinity\<close> or \<open>NaN\<close> in the source and \<open>0\<close> in HOL, so every
  statement that divides assumes the divisor positive, and the statements about the
  pointer handlers take the normalized position of the pointer as the pair of reals that
  \<open>getNormalizedCoordinates\<close> returns for a raster of positive size.
\<close>

subsection \<open>Data\<close>

text \<open>\<open>interface NormalizedRect\<close>, lines 26-32.\<close>

record NormalizedRect =
  xmin :: real
  ymin :: real
  xmax :: real
  ymax :: real

text \<open>\<open>type InteractionMode\<close>, lines 35-46: eleven members, in the order of the source.\<close>

datatype InteractionMode =
    NoInteraction
  | Drawing
  | Moving
  | ResizingN
  | ResizingS
  | ResizingE
  | ResizingW
  | ResizingNW
  | ResizingNE
  | ResizingSW
  | ResizingSE

text \<open>The prop \<open>tool: 'select' | 'pan'\<close>.\<close>

datatype Tool = Select | Pan

text \<open>The fields of a \<open>React.PointerEvent\<close> that the handlers read.\<close>

record PointerEvent =
  clientX :: real
  clientY :: real
  pointerId :: nat

text \<open>
  \<open>imageCanvasRef.current\<close>: the bounding client rectangle of the canvas (its displayed
  box) and its intrinsic pixel size (\<open>canvas.width\<close>, \<open>canvas.height\<close>).
\<close>

record CanvasElement =
  rectLeft :: real
  rectTop :: real
  rectWidth :: real
  rectHeight :: real
  canvasWidth :: real
  canvasHeight :: real

text \<open>\<open>containerRef.current\<close>: the scrollable container.\<close>

record ContainerElement =
  clientWidth :: real
  clientHeight :: real
  scrollLeft :: real
  scrollTop :: real

text \<open>The fields of a \<open>PageImage\<close> that the component computes with.\<close>

record PageImage =
  pageWidth :: real
  pageHeight :: real

text \<open>
  The message of the toast is the template \<open>`... ${nextIndex} ...`\<close> of line 488; only
  the number it holds varies, so the message is the number.
\<close>

datatype ToastMessage = EmptyMessage | QuestionAdded nat

text \<open>The callbacks of the host, as the component invokes them.\<close>

datatype HostCall =
    OnConfirm nat NormalizedRect
  | OnClose
  | OnSelectionChange bool

text \<open>The element a pointer-down lands on (lines 618-661).\<close>

datatype HitTarget = Background | SelectionBody | ResizeHandle InteractionMode

record Cropper =
  pageImages :: "PageImage list"
  initialPageIndex :: nat
  isEditing :: bool
  initialRect :: "NormalizedRect option"
  nextIndex :: nat
  tool :: Tool
  zoom :: real
  currentPageIndex :: nat
  selection :: "NormalizedRect option"
  fitScale :: real
  isLayoutReady :: bool
  interactionMode :: InteractionMode
  showToast :: "ToastMessage \<times> bool"
  dragStartPoint :: "(real \<times> real) option"
  initialSelectionRef :: "NormalizedRect option"
  lastPanPosition :: "(real \<times> real) option"
  viewportCenter :: "(real \<times> real) option"
  preservedScrollRatio :: "(real \<times> real) option"
  hasInitializedZoom :: bool
  imageCanvas :: "CanvasElement option"
  container :: "ContainerElement option"
  pointerCapture :: "nat option"
  hostCalls :: "HostCall list"

text \<open>
  The component as it is mounted (lines 62-87): the initial values of the state cells and
  of the refs, for the given props and DOM elements. The effect of lines 99-101 has run
  once, on the initial selection \<open>null\<close>.
\<close>

definition mountCropper ::
  "PageImage list \<Rightarrow> nat \<Rightarrow> bool \<Rightarrow> NormalizedRect option \<Rightarrow> nat \<Rightarrow> Tool \<Rightarrow> real \<Rightarrow>
   CanvasElement option \<Rightarrow> ContainerElement option \<Rightarrow> Cropper" where
  "mountCropper pages pageIndex editing rect0 next tool0 zoom0 canvas cont =
     \<lparr> pageImages = pages, initialPageIndex = pageIndex, isEditing = editing,
       initialRect = rect0, nextIndex = next, tool = tool0, zoom = zoom0,
       currentPageIndex = pageIndex, selection = None, fitScale = 1,
       isLayoutReady = False, interactionMode = NoInteraction,
       showToast = (EmptyMessage, False), dragStartPoint = None,
       initialSelectionRef = None, lastPanPosition = None, viewportCenter = None,
       preservedScrollRatio = None, hasInitializedZoom = False,
       imageCanvas = canvas, container = cont, pointerCapture = None,
       hostCalls = [OnSelectionChange False] \<rparr>"

text \<open>\<open>const currentPage = pageImages[currentPageIndex]\<close>: \<open>undefined\<close> out of range.\<close>

definition currentPage :: "Cropper \<Rightarrow> PageImage option" where
  "currentPage s =
     (if currentPageIndex s < length (pageImages s)
      then Some (pageImages s ! currentPageIndex s) else None)"

subsection \<open>Selection state and its effect\<close>

text \<open>
  \<open>setSelection\<close> together with the effect of lines 99-101, which calls
  \<open>onSelectionChange(!!selection)\<close> after every render in which \<open>selection\<close> is a
  different value. Every rectangle the pointer handlers pass is a fresh object, and the
  layout pass sets the seed rectangle only once, so a rectangle always differs; \<open>null\<close>
  after \<open>null\<close> does not. No handler sets the selection twice, and every handler runs on
  the state of the last render.
\<close>

definition setSelection :: "NormalizedRect option \<Rightarrow> Cropper \<Rightarrow> Cropper" where
  "setSelection v s =
     s\<lparr> selection := v,
        hostCalls := hostCalls s @
          (if v = None \<and> selection s = None then [] else [OnSelectionChange (v \<noteq> None)]) \<rparr>"

subsection \<open>Coordinate mapping\<close>

text \<open>\<open>getNormalizedCoordinates\<close>, lines 333-345.\<close>

definition getNormalizedCoordinates :: "CanvasElement option \<Rightarrow> PointerEvent \<Rightarrow> real \<times> real" where
  "getNormalizedCoordinates canvas e =
     (case canvas of
        None \<Rightarrow> (0, 0)
      | Some c \<Rightarrow>
          (let visualX = clientX e - rectLeft c;
               visualY = clientY e - rectTop c;
               internalX = visualX * (canvasWidth c / rectWidth c);
               internalY = visualY * (canvasHeight c / rectHeight c)
           in (max 0 (min 1000 ((internalX / canvasWidth c) * 1000)),
               max 0 (min 1000 ((internalY / canvasHeight c) * 1000)))))"

text \<open>
  The way back, as the selection box is laid out (lines 626-631): \<open>left: xmin / 10 %\<close> of
  the wrapper, whose box is the displayed box of the canvas (\<open>absolute inset-0 w-full
  h-full\<close>). A percentage of a length \<open>w\<close> is \<open>p / 100 * w\<close>, measured from the box's edge.
\<close>

definition toClient :: "CanvasElement \<Rightarrow> real \<times> real \<Rightarrow> real \<times> real" where
  "toClient c p =
     (rectLeft c + (fst p / 10) / 100 * rectWidth c,
      rectTop c + (snd p / 10) / 100 * rectHeight c)"

subsection \<open>Selection geometry\<close>

text \<open>
  The three branches of \<open>handlePointerMove\<close>, lines 417-452. Their sums and differences
  are exact here and rounded to binary64 in the source: what is proved of them below
  either is exact in binary64 at the input it is proved at, or is a statement that the
  specification makes up to floating rounding. The gap of 10 that the clamps of the
  resizing branch keep here is not kept to the last bit there, and nothing below rests
  on it.
\<close>

definition movingRect :: "NormalizedRect \<Rightarrow> real \<Rightarrow> real \<Rightarrow> NormalizedRect" where
  "movingRect initial dx dy =
     (let width = xmax initial - xmin initial;
          height = ymax initial - ymin initial;
          newX0 = xmin initial + dx;
          newY0 = ymin initial + dy;
          newX1 = (if newX0 < 0 then 0 else newX0);
          newY1 = (if newY0 < 0 then 0 else newY0);
          newX = (if newX1 + width > 1000 then 1000 - width else newX1);
          newY = (if newY1 + height > 1000 then 1000 - height else newY1)
      in \<lparr> xmin = newX, ymin = newY, xmax = newX + width, ymax = newY + height \<rparr>)"

definition drawingRect :: "NormalizedRect \<Rightarrow> real \<Rightarrow> real \<Rightarrow> NormalizedRect" where
  "drawingRect initial x y =
     \<lparr> xmin = min (xmin initial) x, ymin = min (ymin initial) y,
       xmax = max (xmin initial) x, ymax = max (ymin initial) y \<rparr>"

definition isWest :: "InteractionMode \<Rightarrow> bool" where
  "isWest m = (m = ResizingW \<or> m = ResizingNW \<or> m = ResizingSW)"

definition isEast :: "InteractionMode \<Rightarrow> bool" where
  "isEast m = (m = ResizingE \<or> m = ResizingNE \<or> m = ResizingSE)"

definition isNorth :: "InteractionMode \<Rightarrow> bool" where
  "isNorth m = (m = ResizingN \<or> m = ResizingNW \<or> m = ResizingNE)"

definition isSouth :: "InteractionMode \<Rightarrow> bool" where
  "isSouth m = (m = ResizingS \<or> m = ResizingSW \<or> m = ResizingSE)"

definition resizingRect :: "InteractionMode \<Rightarrow> NormalizedRect \<Rightarrow> real \<Rightarrow> real \<Rightarrow> NormalizedRect" where
  "resizingRect m initial dx dy =
     (let r1 = (if isWest m then initial\<lparr> xmin := min (xmin initial + dx) (xmax initial - 10) \<rparr>
                else initial);
          r2 = (if isEast m then r1\<lparr> xmax := max (xmax initial + dx) (xmin initial + 10) \<rparr>
                else r1);
          r3 = (if isNorth m then r2\<lparr> ymin := min (ymin initial + dy) (ymax initial - 10) \<rparr>
                else r2);
          r4 = (if isSouth m then r3\<lparr> ymax := max (ymax initial + dy) (ymin initial + 10) \<rparr>
                else r3)
      in r4)"

text \<open>
  \<open>newRect\<close> of \<open>handlePointerMove\<close>: \<open>moving\<close>, then \<open>drawing\<close>, then every other mode
  (the handler has returned before for \<open>none\<close>).
\<close>

definition newRect ::
  "InteractionMode \<Rightarrow> NormalizedRect \<Rightarrow> real \<Rightarrow> real \<Rightarrow> real \<Rightarrow> real \<Rightarrow> NormalizedRect" where
  "newRect m initial x y dx dy =
     (if m = Moving then movingRect initial dx dy
      else if m = Drawing then drawingRect initial x y
      else resizingRect m initial dx dy)"

subsection \<open>Pointer handlers\<close>

text \<open>\<open>startDragState\<close>, lines 349-360.\<close>

definition startDragState :: "PointerEvent \<Rightarrow> InteractionMode \<Rightarrow> Cropper \<Rightarrow> Cropper" where
  "startDragState e m s =
     (case getNormalizedCoordinates (imageCanvas s) e of
        (x, y) \<Rightarrow>
          (let s1 = s\<lparr> dragStartPoint := Some (x, y), interactionMode := m \<rparr>
           in case selection s of
                Some sel \<Rightarrow> s1\<lparr> initialSelectionRef := Some sel \<rparr>
              | None \<Rightarrow>
                  setSelection (Some \<lparr> xmin = x, ymin = y, xmax = x, ymax = y \<rparr>)
                    (s1\<lparr> initialSelectionRef :=
                           Some \<lparr> xmin = x, ymin = y, xmax = x, ymax = y \<rparr> \<rparr>)))"

text \<open>
  The three pointer-down handlers, lines 362-390. Each returns whether it called
  \<open>e.stopPropagation()\<close>, and the new state.
\<close>

definition handleHandleDown :: "PointerEvent \<Rightarrow> InteractionMode \<Rightarrow> Cropper \<Rightarrow> bool \<times> Cropper" where
  "handleHandleDown e m s =
     (if tool s = Pan then (False, s)
      else (True, startDragState e m (s\<lparr> pointerCapture := Some (pointerId e) \<rparr>)))"

definition handleBoxDown :: "PointerEvent \<Rightarrow> Cropper \<Rightarrow> bool \<times> Cropper" where
  "handleBoxDown e s =
     (if tool s = Pan then (False, s)
      else (True, startDragState e Moving (s\<lparr> pointerCapture := Some (pointerId e) \<rparr>)))"

definition handleBackgroundDown :: "PointerEvent \<Rightarrow> Cropper \<Rightarrow> Cropper" where
  "handleBackgroundDown e s =
     (if tool s = Pan
      then s\<lparr> pointerCapture := Some (pointerId e),
              interactionMode := Moving,
              lastPanPosition := Some (clientX e, clientY e) \<rparr>
      else startDragState e Drawing (s\<lparr> pointerCapture := Some (pointerId e) \<rparr>))"

text \<open>
  A pointer-down on a hit-target. The selection body and the handles are descendants of
  the background layer (lines 618-661), so the event reaches \<open>handleBackgroundDown\<close>
  unless the inner handler stopped its propagation.
\<close>

definition pointerDown :: "HitTarget \<Rightarrow> PointerEvent \<Rightarrow> Cropper \<Rightarrow> Cropper" where
  "pointerDown t e s =
     (case t of
        Background \<Rightarrow> handleBackgroundDown e s
      | SelectionBody \<Rightarrow>
          (case handleBoxDown e s of
             (stopped, s') \<Rightarrow> if stopped then s' else handleBackgroundDown e s')
      | ResizeHandle m \<Rightarrow>
          (case handleHandleDown e m s of
             (stopped, s') \<Rightarrow> if stopped then s' else handleBackgroundDown e s'))"

text \<open>
  \<open>handlePointerMove\<close>, lines 392-455. The browser's own clamping of the scroll offsets
  it writes under the pan tool is not modelled.
\<close>

definition handlePointerMove :: "PointerEvent \<Rightarrow> Cropper \<Rightarrow> Cropper" where
  "handlePointerMove e s =
     (if tool s = Pan then
        (if interactionMode s = Moving then
           (case (lastPanPosition s, container s) of
              (Some (lx, ly), Some c) \<Rightarrow>
                s\<lparr> container :=
                     Some (c\<lparr> scrollLeft := scrollLeft c - (clientX e - lx),
                              scrollTop := scrollTop c - (clientY e - ly) \<rparr>),
                   lastPanPosition := Some (clientX e, clientY e) \<rparr>
            | _ \<Rightarrow> s)
         else s)
      else if interactionMode s = NoInteraction then s
      else
        (case (dragStartPoint s, initialSelectionRef s) of
           (Some (sx, sy), Some initial) \<Rightarrow>
             (case getNormalizedCoordinates (imageCanvas s) e of
                (x, y) \<Rightarrow>
                  setSelection
                    (Some (newRect (interactionMode s) initial x y (x - sx) (y - sy))) s)
         | _ \<Rightarrow> s))"

text \<open>\<open>handlePointerUp\<close>, lines 457-477 (also the handler of \<open>pointercancel\<close>).\<close>

definition handlePointerUp :: "PointerEvent \<Rightarrow> Cropper \<Rightarrow> Cropper" where
  "handlePointerUp e s =
     (let s1 = (if tool s = Pan then s\<lparr> lastPanPosition := None \<rparr> else s);
          s2 = (if pointerCapture s1 = Some (pointerId e)
                then s1\<lparr> pointerCapture := None \<rparr> else s1);
          s3 = (if interactionMode s2 = Drawing then
                  (case selection s2 of
                     None \<Rightarrow> s2
                   | Some sel \<Rightarrow>
                       if \<bar>xmax sel - xmin sel\<bar> < 10 \<or> \<bar>ymax sel - ymin sel\<bar> < 10
                       then setSelection None s2 else s2)
                else s2)
      in s3\<lparr> interactionMode := NoInteraction, dragStartPoint := None,
             initialSelectionRef := None \<rparr>)"

text \<open>A run of pointer-move events, oldest first.\<close>

definition pointerMoves :: "PointerEvent list \<Rightarrow> Cropper \<Rightarrow> Cropper" where
  "pointerMoves es s = fold handlePointerMove es s"

subsection \<open>Confirming\<close>

text \<open>
  \<open>handleConfirm\<close>, lines 479-499. The timer it starts in add-mode is the separate event
  \<open>toastTimeout\<close>; when it fires is outside the model.
\<close>

definition handleConfirm :: "Cropper \<Rightarrow> Cropper" where
  "handleConfirm s =
     (case selection s of
        None \<Rightarrow> s
      | Some sel \<Rightarrow>
          (let s1 = s\<lparr> hostCalls := hostCalls s @ [OnConfirm (currentPageIndex s) sel] \<rparr>
           in if \<not> isEditing s
              then (setSelection None s1)\<lparr> showToast := (QuestionAdded (nextIndex s), True) \<rparr>
              else setSelection None s1))"

definition toastTimeout :: "Cropper \<Rightarrow> Cropper" where
  "toastTimeout s = s\<lparr> showToast := (fst (showToast s), False) \<rparr>"

subsection \<open>Layout\<close>

text \<open>The centre of a rectangle as a fraction of the page, lines 145-147 and 171-173.\<close>

definition rectCenter :: "NormalizedRect \<Rightarrow> real \<times> real" where
  "rectCenter r = ((xmin r + xmax r) / 2 / 1000, (ymin r + ymax r) / 2 / 1000)"

text \<open>
  \<open>calculateLayout\<close>, lines 121-197. \<open>setZoom\<close> and \<open>setTool\<close> write the lifted fields.
\<close>

definition calculateLayout :: "bool \<Rightarrow> Cropper \<Rightarrow> Cropper" where
  "calculateLayout preserveView s =
     (case (container s, currentPage s) of
        (Some c, Some page) \<Rightarrow>
          (let padding = 0;
               containerWidth = clientWidth c - padding;
               containerHeight = clientHeight c - padding
           in if containerWidth \<le> 0 \<or> containerHeight \<le> 0 then s
              else
                (let scaleX = containerWidth / pageWidth page;
                     scaleY = containerHeight / pageHeight page;
                     s' =
                       (if isEditing s \<and> initialRect s \<noteq> None \<and> \<not> hasInitializedZoom s then
                          (let fitWidthScale = containerWidth / pageWidth page;
                               s1 = s\<lparr> fitScale := fitWidthScale \<rparr>;
                               s2 =
                                 (if \<not> preserveView then
                                    (let s3 = s1\<lparr> zoom := 1 \<rparr>
                                     in if currentPageIndex s = initialPageIndex s then
                                          (case initialRect s of
                                             Some r \<Rightarrow>
                                               (setSelection (Some r) s3)
                                                 \<lparr> viewportCenter := Some (rectCenter r) \<rparr>
                                           | None \<Rightarrow> s3)
                                        else s3)
                                  else s1)
                           in s2\<lparr> hasInitializedZoom := True \<rparr>)
                        else
                          (let fitScreenScale = min scaleX scaleY;
                               s1 = s\<lparr> fitScale := fitScreenScale \<rparr>
                           in if \<not> preserveView then
                                (if \<not> hasInitializedZoom s then
                                   (let s2 =
                                          (if scaleY < scaleX then
                                             (let widthFitZoom = scaleX / scaleY;
                                                  targetZoom = min (widthFitZoom * 1.0) 3.0
                                              in s1\<lparr> zoom := max targetZoom 1.0 \<rparr>)
                                           else s1\<lparr> zoom := 1.0 \<rparr>);
                                        s3 =
                                          (case initialRect s of
                                             Some r \<Rightarrow>
                                               if currentPageIndex s = initialPageIndex s then
                                                 (setSelection (Some r) s2)
                                                   \<lparr> viewportCenter := Some (rectCenter r) \<rparr>
                                               else
                                                 (setSelection None s2)
                                                   \<lparr> viewportCenter := Some (0.5, 0) \<rparr>
                                           | None \<Rightarrow>
                                               (setSelection None s2)
                                                 \<lparr> viewportCenter := Some (0.5, 0) \<rparr>)
                                    in s3\<lparr> tool := Select, hasInitializedZoom := True \<rparr>)
                                 else
                                   (let s2 = setSelection None s1
                                    in case preservedScrollRatio s of
                                         Some p \<Rightarrow>
                                           s2\<lparr> viewportCenter := Some p,
                                               preservedScrollRatio := None \<rparr>
                                       | None \<Rightarrow> s2\<lparr> viewportCenter := Some (0.5, 0) \<rparr>))
                              else s1))
                 in s'\<lparr> isLayoutReady := True \<rparr>))
      | _ \<Rightarrow> s)"

text \<open>
  The two ways a layout pass is started again. The resize observer (lines 207-211) calls
  \<open>calculateLayout(true)\<close> when the container has taken a new size, and once when it
  starts to observe. The layout effect (lines 200-216) calls \<open>calculateLayout(false)\<close>
  again when \<open>calculateLayout\<close> is a new function, which it is when the page index has
  changed.
\<close>

definition containerResized :: "real \<Rightarrow> real \<Rightarrow> Cropper \<Rightarrow> Cropper" where
  "containerResized w h s =
     calculateLayout True
       (s\<lparr> container :=
            map_option (\<lambda>c. c\<lparr> clientWidth := w, clientHeight := h \<rparr>) (container s) \<rparr>)"

definition pageChanged :: "nat \<Rightarrow> Cropper \<Rightarrow> Cropper" where
  "pageChanged i s = calculateLayout False (s\<lparr> currentPageIndex := i \<rparr>)"

datatype LayoutEvent = Resized real real | PageChanged nat

definition layoutEvent :: "LayoutEvent \<Rightarrow> Cropper \<Rightarrow> Cropper" where
  "layoutEvent ev s =
     (case ev of
        Resized w h \<Rightarrow> containerResized w h s
      | PageChanged i \<Rightarrow> pageChanged i s)"

text \<open>A run of such events, oldest first.\<close>

definition layoutEvents :: "LayoutEvent list \<Rightarrow> Cropper \<Rightarrow> Cropper" where
  "layoutEvents evs s = fold layoutEvent evs s"

subsection \<open>A concrete session\<close>

text \<open>
  A page of 2000 by 2800 pixels in a container of 800 by 600, shown 800 by 1120 below a
  header of 56 pixels, so that one normalized unit is 0.8 pixels across and 1.12 pixels
  down; a rectangle; a pointer event; an add-mode and an edit-mode session.
\<close>

definition pageA :: PageImage where
  "pageA = \<lparr> pageWidth = 2000, pageHeight = 2800 \<rparr>"

definition canvasA :: CanvasElement where
  "canvasA = \<lparr> rectLeft = 0, rectTop = 56, rectWidth = 800, rectHeight = 1120,
               canvasWidth = 2000, canvasHeight = 2800 \<rparr>"

definition viewA :: ContainerElement where
  "viewA = \<lparr> clientWidth = 800, clientHeight = 600, scrollLeft = 0, scrollTop = 0 \<rparr>"

definition boxA :: NormalizedRect where
  "boxA = \<lparr> xmin = 100, ymin = 100, xmax = 300, ymax = 300 \<rparr>"

definition pointerAt :: "real \<Rightarrow> real \<Rightarrow> PointerEvent" where
  "pointerAt cx cy = \<lparr> clientX = cx, clientY = cy, pointerId = 1 \<rparr>"

definition addSession :: Cropper where
  "addSession = mountCropper [pageA] 0 False None 1 Select 1 (Some canvasA) (Some viewA)"

definition editSession :: Cropper where
  "editSession =
     mountCropper [pageA] 0 True (Some boxA) 3 Select 1 (Some canvasA) (Some viewA)"

text \<open>
  The add-mode session after a first rectangle has been drawn: pointer-down on the
  background at normalized (100, 100), a move to (300, 300), pointer-up.
\<close>

definition boxSession :: Cropper where
  "boxSession =
     handlePointerUp (pointerAt 240 392)
       (handlePointerMove (pointerAt 240 392)
          (pointerDown Background (pointerAt 80 168) addSession))"

subsection \<open>The specification's geometry, for comparison\<close>

text \<open>
  The min/max envelope of two points, as section 4.2 of the specification words it. The
  handlers do not use it; the statements compare the handlers with it.
\<close>

definition envelope :: "real \<times> real \<Rightarrow> real \<times> real \<Rightarrow> NormalizedRect" where
  "envelope a b =
     \<lparr> xmin = min (fst a) (fst b), ymin = min (snd a) (snd b),
       xmax = max (fst a) (fst b), ymax = max (snd a) (snd b) \<rparr>"

section \<open>Properties\<close>

subsection \<open>Frame lemmas\<close>

lemma setSelection_fields [simp]:
  "selection (setSelection v s) = v"
  "interactionMode (setSelection v s) = interactionMode s"
  "tool (setSelection v s) = tool s"
  "dragStartPoint (setSelection v s) = dragStartPoint s"
  "initialSelectionRef (setSelection v s) = initialSelectionRef s"
  "imageCanvas (setSelection v s) = imageCanvas s"
  "zoom (setSelection v s) = zoom s"
  "hasInitializedZoom (setSelection v s) = hasInitializedZoom s"
  "fitScale (setSelection v s) = fitScale s"
  "showToast (setSelection v s) = showToast s"
  by (simp_all add: setSelection_def)

lemma handlePointerMove_frame:
  "tool (handlePointerMove e s) = tool s"
  "interactionMode (handlePointerMove e s) = interactionMode s"
  "dragStartPoint (handlePointerMove e s) = dragStartPoint s"
  "initialSelectionRef (handlePointerMove e s) = initialSelectionRef s"
  "imageCanvas (handlePointerMove e s) = imageCanvas s"
  by (simp_all add: handlePointerMove_def split: option.splits prod.splits)

text \<open>A run of moves changes nothing of what the next move reads but the selection.\<close>

lemma pointerMoves_frame:
  "tool (pointerMoves es s) = tool s \<and>
   interactionMode (pointerMoves es s) = interactionMode s \<and>
   dragStartPoint (pointerMoves es s) = dragStartPoint s \<and>
   initialSelectionRef (pointerMoves es s) = initialSelectionRef s \<and>
   imageCanvas (pointerMoves es s) = imageCanvas s"
  unfolding pointerMoves_def
  by (induction es arbitrary: s) (simp_all add: handlePointerMove_frame)

lemma pointerMoves_snoc:
  "pointerMoves (es @ [e]) s = handlePointerMove e (pointerMoves es s)"
  by (simp add: pointerMoves_def)

lemma handlePointerMove_select:
  assumes "tool s = Select" and "interactionMode s \<noteq> NoInteraction"
    and "dragStartPoint s = Some (sx, sy)" and "initialSelectionRef s = Some initial"
    and "getNormalizedCoordinates (imageCanvas s) e = (x, y)"
  shows "selection (handlePointerMove e s) =
           Some (newRect (interactionMode s) initial x y (x - sx) (y - sy))"
  using assms by (simp add: handlePointerMove_def)

text \<open>
  Every step of a drag is computed from the snapshot taken at pointer-down, whatever the
  steps before it did.
\<close>

lemma pointerMoves_select:
  assumes "tool s = Select" and "interactionMode s \<noteq> NoInteraction"
    and "dragStartPoint s = Some (sx, sy)" and "initialSelectionRef s = Some initial"
    and "getNormalizedCoordinates (imageCanvas s) e = (x, y)"
  shows "selection (pointerMoves (es @ [e]) s) =
           Some (newRect (interactionMode s) initial x y (x - sx) (y - sy))"
proof -
  let ?t = "pointerMoves es s"
  have "tool ?t = Select" "interactionMode ?t = interactionMode s"
    "dragStartPoint ?t = Some (sx, sy)" "initialSelectionRef ?t = Some initial"
    "getNormalizedCoordinates (imageCanvas ?t) e = (x, y)"
    using assms pointerMoves_frame [of es s] by simp_all
  then show ?thesis
    using assms(2) handlePointerMove_select [of ?t sx sy initial e x y]
    by (simp add: pointerMoves_snoc)
qed

text \<open>The coordinates of the concrete session: four pixels are five units across.\<close>

lemma canvasA_coordinates:
  "getNormalizedCoordinates (Some canvasA) (pointerAt cx cy) =
     (max 0 (min 1000 (cx * 5 / 4)), max 0 (min 1000 ((cy - 56) * 25 / 28)))"
  by (simp add: getNormalizedCoordinates_def canvasA_def pointerAt_def Let_def algebra_simps)

lemma pointerAt_fields [simp]:
  "clientX (pointerAt cx cy) = cx" "clientY (pointerAt cx cy) = cy"
  "pointerId (pointerAt cx cy) = 1"
  by (simp_all add: pointerAt_def)

lemma addSession_fields:
  "tool addSession = Select" "selection addSession = None"
  "imageCanvas addSession = Some canvasA" "hostCalls addSession = [OnSelectionChange False]"
  "interactionMode addSession = NoInteraction" "isEditing addSession = False"
  by (simp_all add: addSession_def mountCropper_def)

lemma addSession_layout:
  "container addSession = Some viewA" "currentPage addSession = Some pageA"
  "\<not> hasInitializedZoom addSession" "\<not> (isEditing addSession \<and> initialRect addSession \<noteq> None)"
  by (simp_all add: addSession_def mountCropper_def currentPage_def)

text \<open>Drawing the first rectangle reports a selection twice: at pointer-down and at the move.\<close>

lemma boxSession_eq:
  "boxSession = addSession\<lparr> selection := Some boxA, pointerCapture := None,
      hostCalls := [OnSelectionChange False, OnSelectionChange True, OnSelectionChange True] \<rparr>"
  by (simp add: boxSession_def pointerDown_def handleBackgroundDown_def startDragState_def
      handlePointerMove_def handlePointerUp_def setSelection_def canvasA_coordinates
      newRect_def drawingRect_def boxA_def addSession_def mountCropper_def Let_def)

lemma boxSession_fields:
  "tool boxSession = Select" "selection boxSession = Some boxA"
  "imageCanvas boxSession = Some canvasA" "interactionMode boxSession = NoInteraction"
  "hostCalls boxSession =
     [OnSelectionChange False, OnSelectionChange True, OnSelectionChange True]"
  by (simp_all add: boxSession_eq addSession_fields)

subsection \<open>Pointer-down under the select tool\<close>

lemma background_down_fresh:
  assumes "tool s = Select" and "selection s = None"
    and "getNormalizedCoordinates (imageCanvas s) e = (x, y)"
  shows "pointerDown Background e s =
     s\<lparr> pointerCapture := Some (pointerId e), dragStartPoint := Some (x, y),
        interactionMode := Drawing,
        initialSelectionRef := Some \<lparr> xmin = x, ymin = y, xmax = x, ymax = y \<rparr>,
        selection := Some \<lparr> xmin = x, ymin = y, xmax = x, ymax = y \<rparr>,
        hostCalls := hostCalls s @ [OnSelectionChange True] \<rparr>"
  using assms
  by (simp add: pointerDown_def handleBackgroundDown_def startDragState_def setSelection_def)

text \<open>
  With a selection present, \<open>startDragState\<close> takes its first branch: the selection stays
  and becomes the snapshot of the drag, whatever the mode.
\<close>

lemma background_down_on_selection:
  assumes "tool s = Select" and "selection s = Some r"
    and "getNormalizedCoordinates (imageCanvas s) e = (x, y)"
  shows "pointerDown Background e s =
     s\<lparr> pointerCapture := Some (pointerId e), dragStartPoint := Some (x, y),
        interactionMode := Drawing, initialSelectionRef := Some r \<rparr>"
  using assms
  by (simp add: pointerDown_def handleBackgroundDown_def startDragState_def)

lemma handle_down_select:
  assumes "tool s = Select" and "selection s = Some r"
    and "getNormalizedCoordinates (imageCanvas s) e = (x, y)"
  shows "pointerDown (ResizeHandle m) e s =
     s\<lparr> pointerCapture := Some (pointerId e), dragStartPoint := Some (x, y),
        interactionMode := m, initialSelectionRef := Some r \<rparr>"
  using assms
  by (simp add: pointerDown_def handleHandleDown_def startDragState_def)

text \<open>Every move of a drag under the select tool reports a selection to the host.\<close>

lemma handlePointerMove_calls:
  assumes "tool s = Select" and "interactionMode s \<noteq> NoInteraction"
    and "dragStartPoint s = Some p" and "initialSelectionRef s = Some initial"
  shows "hostCalls (handlePointerMove e s) = hostCalls s @ [OnSelectionChange True]"
  using assms
  by (cases p) (simp add: handlePointerMove_def setSelection_def split: prod.splits)

lemma pointerMoves_calls:
  assumes "tool s = Select" and "interactionMode s \<noteq> NoInteraction"
    and "dragStartPoint s = Some p" and "initialSelectionRef s = Some initial"
  shows "hostCalls (pointerMoves es s) =
           hostCalls s @ replicate (length es) (OnSelectionChange True)"
  using assms
proof (induction es arbitrary: s)
  case Nil
  then show ?case by (simp add: pointerMoves_def)
next
  case (Cons e es)
  have "hostCalls (pointerMoves es (handlePointerMove e s)) =
          hostCalls (handlePointerMove e s) @ replicate (length es) (OnSelectionChange True)"
    using Cons.prems by (intro Cons.IH) (simp_all add: handlePointerMove_frame)
  then show ?case
    using Cons.prems
    by (simp add: pointerMoves_def handlePointerMove_calls [where p = p and initial = initial])
qed

subsection \<open>Confirming a selection\<close>

text \<open>
  C1, as the code has it. With a selection \<open>r\<close>, \<open>handleConfirm\<close> calls
  \<open>onConfirm(currentPageIndex, r)\<close> and clears the selection, so that the host is told
  there is no selection; these two calls are all it makes, in edit-mode as in add-mode,
  and \<open>onClose\<close> is not among them. In add-mode it shows the toast for the next question
  number, which the timer hides again; in edit-mode the toast is left as it was.
\<close>

theorem confirm_commits_and_clears:
  assumes "selection s = Some r"
  shows "selection (handleConfirm s) = None \<and>
         hostCalls (handleConfirm s) =
           hostCalls s @ [OnConfirm (currentPageIndex s) r, OnSelectionChange False] \<and>
         showToast (handleConfirm s) =
           (if isEditing s then showToast s else (QuestionAdded (nextIndex s), True)) \<and>
         showToast (toastTimeout (handleConfirm s)) =
           (if isEditing s then (fst (showToast s), False)
            else (QuestionAdded (nextIndex s), False))"
  using assms
  by (simp add: handleConfirm_def toastTimeout_def setSelection_def Let_def)

text \<open>Confirming the rectangle drawn in the add-mode session.\<close>

theorem confirm_commits_and_clears_witness:
  "hostCalls (handleConfirm boxSession) =
     [OnSelectionChange False, OnSelectionChange True, OnSelectionChange True,
      OnConfirm 0 boxA, OnSelectionChange False] \<and>
   selection (handleConfirm boxSession) = None \<and>
   showToast (handleConfirm boxSession) = (QuestionAdded 1, True) \<and>
   showToast (toastTimeout (handleConfirm boxSession)) = (QuestionAdded 1, False)"
  using confirm_commits_and_clears [OF boxSession_fields(2)]
  by (simp add: boxSession_eq addSession_def mountCropper_def)

lemma editSession_layout:
  "calculateLayout False editSession =
     editSession\<lparr> fitScale := 2 / 5, zoom := 1, selection := Some boxA,
       hostCalls := [OnSelectionChange False, OnSelectionChange True],
       viewportCenter := Some (1 / 5, 1 / 5), hasInitializedZoom := True,
       isLayoutReady := True \<rparr>"
  by (simp add: calculateLayout_def editSession_def mountCropper_def currentPage_def
      viewA_def pageA_def setSelection_def rectCenter_def boxA_def Let_def)

text \<open>
  The edit-mode session after its first layout holds the seeded rectangle. Confirming it
  calls \<open>onConfirm\<close> and reports the cleared selection; \<open>onClose\<close> is never called.
\<close>

theorem confirm_edit_no_close:
  "isEditing (calculateLayout False editSession) \<and>
   selection (calculateLayout False editSession) = Some boxA \<and>
   hostCalls (handleConfirm (calculateLayout False editSession)) =
     [OnSelectionChange False, OnSelectionChange True, OnConfirm 0 boxA,
      OnSelectionChange False] \<and>
   OnClose \<notin> set (hostCalls (handleConfirm (calculateLayout False editSession)))"
  unfolding editSession_layout
  by (simp add: handleConfirm_def setSelection_def Let_def editSession_def mountCropper_def)

subsection \<open>The pan tool\<close>

lemma pan_down:
  assumes "tool s = Pan"
  shows "pointerDown t e s =
     s\<lparr> pointerCapture := Some (pointerId e), interactionMode := Moving,
        lastPanPosition := Some (clientX e, clientY e) \<rparr>"
  using assms
  by (cases t)
     (simp_all add: pointerDown_def handleBackgroundDown_def handleBoxDown_def
        handleHandleDown_def)

lemma pan_move_frame:
  assumes "tool s = Pan"
  shows "tool (handlePointerMove e s) = Pan \<and>
         selection (handlePointerMove e s) = selection s \<and>
         hostCalls (handlePointerMove e s) = hostCalls s \<and>
         dragStartPoint (handlePointerMove e s) = dragStartPoint s \<and>
         initialSelectionRef (handlePointerMove e s) = initialSelectionRef s"
  using assms by (simp add: handlePointerMove_def split: option.splits prod.splits)

lemma pan_moves_frame:
  assumes "tool s = Pan"
  shows "selection (pointerMoves es s) = selection s \<and>
         hostCalls (pointerMoves es s) = hostCalls s \<and>
         dragStartPoint (pointerMoves es s) = dragStartPoint s \<and>
         initialSelectionRef (pointerMoves es s) = initialSelectionRef s"
  using assms
proof (induction es arbitrary: s)
  case Nil
  then show ?case by (simp add: pointerMoves_def)
next
  case (Cons e es)
  from Cons.IH [of "handlePointerMove e s"] pan_move_frame [OF Cons.prems, of e]
  show ?case by (simp add: pointerMoves_def)
qed

text \<open>
  C3, as the code has it. Under the pan tool a pointer-down on any hit-target (the
  background, the selection body, a handle) captures the pointer, records the pointer
  position as the last pan position and sets the interaction mode to \<open>moving\<close>, the
  mode that a drag of the selection body uses under the select tool; the type of modes
  has no member for panning. The handlers of the selection body and of the handles
  return at once without stopping the event, and neither the pointer-down nor any run
  of moves after it changes the selection, the drag snapshot or what the host is told.
\<close>

theorem pan_tool_pointer_down:
  assumes "tool s = Pan"
  shows "pointerDown t e s =
           s\<lparr> pointerCapture := Some (pointerId e), interactionMode := Moving,
              lastPanPosition := Some (clientX e, clientY e) \<rparr> \<and>
         handleBoxDown e s = (False, s) \<and>
         handleHandleDown e m s = (False, s) \<and>
         selection (pointerMoves es (pointerDown t e s)) = selection s \<and>
         hostCalls (pointerMoves es (pointerDown t e s)) = hostCalls s \<and>
         dragStartPoint (pointerMoves es (pointerDown t e s)) = dragStartPoint s \<and>
         initialSelectionRef (pointerMoves es (pointerDown t e s)) = initialSelectionRef s"
proof -
  have "tool (pointerDown t e s) = Pan"
    using assms by (simp add: pan_down)
  from pan_moves_frame [OF this, of es] show ?thesis
    using assms by (simp add: pan_down handleBoxDown_def handleHandleDown_def)
qed

text \<open>The session with a rectangle, switched to the pan tool: a press on the rectangle.\<close>

theorem pan_tool_pointer_down_witness:
  "interactionMode (pointerDown SelectionBody (pointerAt 160 280) (boxSession\<lparr> tool := Pan \<rparr>))
     = Moving \<and>
   lastPanPosition (pointerDown SelectionBody (pointerAt 160 280) (boxSession\<lparr> tool := Pan \<rparr>))
     = Some (160, 280) \<and>
   selection (pointerMoves [pointerAt 100 100]
       (pointerDown SelectionBody (pointerAt 160 280) (boxSession\<lparr> tool := Pan \<rparr>)))
     = Some boxA"
proof -
  have t: "tool (boxSession\<lparr> tool := Pan \<rparr>) = Pan"
    by simp
  note w = pan_tool_pointer_down [OF t, of SelectionBody "pointerAt 160 280" ResizingSE
      "[pointerAt 100 100]"]
  have "pointerDown SelectionBody (pointerAt 160 280) (boxSession\<lparr> tool := Pan \<rparr>) =
      boxSession\<lparr> tool := Pan, pointerCapture := Some 1, interactionMode := Moving,
        lastPanPosition := Some (160, 280) \<rparr>"
    using w [THEN conjunct1] by simp
  moreover have "selection (pointerMoves [pointerAt 100 100]
       (pointerDown SelectionBody (pointerAt 160 280) (boxSession\<lparr> tool := Pan \<rparr>))) = Some boxA"
    using w [THEN conjunct2, THEN conjunct2, THEN conjunct2, THEN conjunct1]
    by (simp add: boxSession_fields)
  ultimately show ?thesis by simp
qed

text \<open>
  The mode after a pointer-down under the pan tool is the mode after a press on the
  selection body under the select tool, and the eleven modes of the source are all there
  are.
\<close>

theorem pan_mode_is_moving:
  "interactionMode (pointerDown Background (pointerAt 400 616) (boxSession\<lparr> tool := Pan \<rparr>))
     = Moving \<and>
   interactionMode (pointerDown SelectionBody (pointerAt 160 280) boxSession) = Moving \<and>
   (UNIV :: InteractionMode set) =
     {NoInteraction, Drawing, Moving, ResizingN, ResizingS, ResizingE, ResizingW,
      ResizingNW, ResizingNE, ResizingSW, ResizingSE}"
proof -
  have "interactionMode (pointerDown Background (pointerAt 400 616) (boxSession\<lparr> tool := Pan \<rparr>))
     = Moving"
    by (simp add: pan_down)
  moreover have "interactionMode (pointerDown SelectionBody (pointerAt 160 280) boxSession) = Moving"
    by (simp add: pointerDown_def handleBoxDown_def startDragState_def boxSession_fields
        split: prod.splits)
  moreover have "(UNIV :: InteractionMode set) =
     {NoInteraction, Drawing, Moving, ResizingN, ResizingS, ResizingE, ResizingW,
      ResizingNW, ResizingNE, ResizingSW, ResizingSE}"
  proof -
    have "m \<in> {NoInteraction, Drawing, Moving, ResizingN, ResizingS, ResizingE, ResizingW,
      ResizingNW, ResizingNE, ResizingSW, ResizingSE}" for m
      by (cases m) simp_all
    then show ?thesis by blast
  qed
  ultimately show ?thesis by simp
qed

subsection \<open>Moving\<close>

lemma movingRect_clamped:
  assumes "0 \<le> xmin r" and "xmin r \<le> xmax r" and "xmax r \<le> 1000"
    and "0 \<le> ymin r" and "ymin r \<le> ymax r" and "ymax r \<le> 1000"
  shows "movingRect r dx dy =
     \<lparr> xmin = xmin r + max (- xmin r) (min (1000 - xmax r) dx),
       ymin = ymin r + max (- ymin r) (min (1000 - ymax r) dy),
       xmax = xmax r + max (- xmin r) (min (1000 - xmax r) dx),
       ymax = ymax r + max (- ymin r) (min (1000 - ymax r) dy) \<rparr>"
  using assms by (simp add: movingRect_def Let_def max_def min_def)

text \<open>
  C4. In \<open>moving\<close> mode under the select tool, with the rectangle \<open>r\<close> snapshotted at
  pointer-down inside the page, after every step of every run of moves the selection is
  \<open>r\<close> translated by the drag delta \<open>(x - sx, y - sy)\<close> clamped on each axis to what keeps
  \<open>r\<close> on the page: its width and height are those of \<open>r\<close>, and it lies within 0 and 1000
  on both axes.
\<close>

theorem moving_translates_clamped:
  assumes "tool s = Select" and "interactionMode s = Moving"
    and "dragStartPoint s = Some (sx, sy)" and "initialSelectionRef s = Some r"
    and "0 \<le> xmin r" and "xmin r \<le> xmax r" and "xmax r \<le> 1000"
    and "0 \<le> ymin r" and "ymin r \<le> ymax r" and "ymax r \<le> 1000"
    and "getNormalizedCoordinates (imageCanvas s) e = (x, y)"
  shows "\<exists>r'. selection (pointerMoves (es @ [e]) s) = Some r' \<and>
           xmin r' = xmin r + max (- xmin r) (min (1000 - xmax r) (x - sx)) \<and>
           xmax r' = xmax r + max (- xmin r) (min (1000 - xmax r) (x - sx)) \<and>
           ymin r' = ymin r + max (- ymin r) (min (1000 - ymax r) (y - sy)) \<and>
           ymax r' = ymax r + max (- ymin r) (min (1000 - ymax r) (y - sy)) \<and>
           xmax r' - xmin r' = xmax r - xmin r \<and>
           ymax r' - ymin r' = ymax r - ymin r \<and>
           0 \<le> xmin r' \<and> xmax r' \<le> 1000 \<and> 0 \<le> ymin r' \<and> ymax r' \<le> 1000"
proof -
  have sel: "selection (pointerMoves (es @ [e]) s) = Some (movingRect r (x - sx) (y - sy))"
    using pointerMoves_select [of s sx sy r e x y es] assms by (simp add: newRect_def)
  have shape: "movingRect r (x - sx) (y - sy) =
     \<lparr> xmin = xmin r + max (- xmin r) (min (1000 - xmax r) (x - sx)),
       ymin = ymin r + max (- ymin r) (min (1000 - ymax r) (y - sy)),
       xmax = xmax r + max (- xmin r) (min (1000 - xmax r) (x - sx)),
       ymax = ymax r + max (- ymin r) (min (1000 - ymax r) (y - sy)) \<rparr>"
    using assms by (intro movingRect_clamped) simp_all
  have across: "0 \<le> xmin r + max (- xmin r) (min (1000 - xmax r) (x - sx))"
    "xmax r + max (- xmin r) (min (1000 - xmax r) (x - sx)) \<le> 1000"
    using assms(5-7) by (simp_all add: max_def min_def)
  have down: "0 \<le> ymin r + max (- ymin r) (min (1000 - ymax r) (y - sy))"
    "ymax r + max (- ymin r) (min (1000 - ymax r) (y - sy)) \<le> 1000"
    using assms(8-10) by (simp_all add: max_def min_def)
  show ?thesis
    unfolding sel shape using across down by simp
qed

text \<open>
  The rectangle of the session, pressed at its centre and dragged, by way of a point
  below it, far past the top right corner of the page: it stops in that corner.
\<close>

theorem moving_translates_clamped_witness:
  "selection
     (pointerMoves [pointerAt 400 504, pointerAt 2000 0]
        (pointerDown SelectionBody (pointerAt 160 280) boxSession))
   = Some \<lparr> xmin = 800, ymin = 0, xmax = 1000, ymax = 200 \<rparr>"
proof -
  let ?s = "pointerDown SelectionBody (pointerAt 160 280) boxSession"
  have s: "tool ?s = Select" "interactionMode ?s = Moving"
    "dragStartPoint ?s = Some (200, 200)" "initialSelectionRef ?s = Some boxA"
    "imageCanvas ?s = Some canvasA"
    by (simp_all add: pointerDown_def handleBoxDown_def startDragState_def boxSession_fields
        canvasA_coordinates)
  have c: "getNormalizedCoordinates (imageCanvas ?s) (pointerAt 2000 0) = (1000, 0)"
    by (simp add: s canvasA_coordinates)
  obtain r' where "selection (pointerMoves ([pointerAt 400 504] @ [pointerAt 2000 0]) ?s) = Some r'"
    and "xmin r' = xmin boxA + max (- xmin boxA) (min (1000 - xmax boxA) (1000 - 200))"
    and "xmax r' = xmax boxA + max (- xmin boxA) (min (1000 - xmax boxA) (1000 - 200))"
    and "ymin r' = ymin boxA + max (- ymin boxA) (min (1000 - ymax boxA) (0 - 200))"
    and "ymax r' = ymax boxA + max (- ymin boxA) (min (1000 - ymax boxA) (0 - 200))"
    using moving_translates_clamped [of ?s 200 200 boxA "pointerAt 2000 0" 1000 0 "[pointerAt 400 504]"]
      s c by (auto simp: boxA_def)
  then show ?thesis by (cases r') (simp add: boxA_def)
qed

subsection \<open>Resizing\<close>

text \<open>
  C2 at a concrete drag. The south-east handle reaches four pixels inside the corner of
  the selection (\<open>-right-3 w-4\<close>, line 653). Pressed two pixels to the left of the corner
  of the session's rectangle, at normalized (297.5, 300), and dragged to the right past
  the edge of the page, where the pointer is clamped to 1000, it puts \<open>xmax\<close> at 1002.5.
\<close>

theorem resize_overshoots_page:
  "selection boxSession = Some \<lparr> xmin = 100, ymin = 100, xmax = 300, ymax = 300 \<rparr> \<and>
   getNormalizedCoordinates (imageCanvas boxSession) (pointerAt 238 392) = (595 / 2, 300) \<and>
   getNormalizedCoordinates (imageCanvas boxSession) (pointerAt 900 392) = (1000, 300) \<and>
   selection (pointerMoves [pointerAt 900 392]
       (pointerDown (ResizeHandle ResizingSE) (pointerAt 238 392) boxSession))
     = Some \<lparr> xmin = 100, ymin = 100, xmax = 2005 / 2, ymax = 300 \<rparr> \<and>
   (1000 :: real) < 2005 / 2"
proof -
  let ?s = "pointerDown (ResizeHandle ResizingSE) (pointerAt 238 392) boxSession"
  have c: "getNormalizedCoordinates (imageCanvas boxSession) (pointerAt 238 392) = (595 / 2, 300)"
    "getNormalizedCoordinates (imageCanvas boxSession) (pointerAt 900 392) = (1000, 300)"
    by (simp_all add: boxSession_fields canvasA_coordinates)
  note d = handle_down_select [OF boxSession_fields(1,2) c(1), of ResizingSE]
  have "selection (pointerMoves ([] @ [pointerAt 900 392]) ?s) =
      Some (newRect ResizingSE boxA 1000 300 (1000 - 595 / 2) (300 - 300))"
    by (subst pointerMoves_select [where sx = "595 / 2" and sy = 300 and x = 1000 and y = 300
          and initial = boxA])
       (simp_all add: d boxSession_fields canvasA_coordinates)
  then show ?thesis
    using c
    by (simp add: boxSession_fields newRect_def resizingRect_def Let_def isWest_def isEast_def
        isNorth_def isSouth_def boxA_def)
qed

subsection \<open>Drawing\<close>

text \<open>
  C6. A pointer-up (or pointer-cancel) in \<open>drawing\<close> mode leaves no selection when the
  selection is less than 10 units wide or less than 10 units high, and keeps the
  selection as it is otherwise; the mode returns to \<open>none\<close>.
\<close>

theorem draw_end_threshold:
  assumes "interactionMode s = Drawing"
  shows "selection (handlePointerUp e s) =
           (case selection s of
              None \<Rightarrow> None
            | Some r \<Rightarrow>
                if \<bar>xmax r - xmin r\<bar> < 10 \<or> \<bar>ymax r - ymin r\<bar> < 10 then None else Some r) \<and>
         interactionMode (handlePointerUp e s) = NoInteraction"
  using assms by (simp add: handlePointerUp_def Let_def split: option.splits)

text \<open>A draw 7.5 units wide and 200 units high is discarded at pointer-up.\<close>

theorem draw_end_threshold_witness:
  "interactionMode (pointerMoves [pointerAt 86 392] (pointerDown Background (pointerAt 80 168) addSession))
     = Drawing \<and>
   selection (pointerMoves [pointerAt 86 392] (pointerDown Background (pointerAt 80 168) addSession))
     = Some \<lparr> xmin = 100, ymin = 100, xmax = 215 / 2, ymax = 300 \<rparr> \<and>
   selection
     (handlePointerUp (pointerAt 86 392)
        (pointerMoves [pointerAt 86 392] (pointerDown Background (pointerAt 80 168) addSession)))
     = None"
proof -
  let ?s = "pointerMoves [pointerAt 86 392] (pointerDown Background (pointerAt 80 168) addSession)"
  have m: "interactionMode ?s = Drawing"
    by (simp add: pointerMoves_frame pointerDown_def handleBackgroundDown_def
        startDragState_def addSession_fields canvasA_coordinates)
  have sel: "selection ?s = Some \<lparr> xmin = 100, ymin = 100, xmax = 215 / 2, ymax = 300 \<rparr>"
    by (simp add: pointerMoves_def handlePointerMove_def pointerDown_def
        handleBackgroundDown_def startDragState_def addSession_fields canvasA_coordinates
        newRect_def drawingRect_def)
  show ?thesis
    using draw_end_threshold [OF m, of "pointerAt 86 392"] m sel by simp
qed

text \<open>A drawing step anchored on the page, with the pointer on the page, stays on the page.\<close>

lemma drawingRect_on_page:
  assumes "0 \<le> xmin r" and "xmin r \<le> 1000" and "0 \<le> ymin r" and "ymin r \<le> 1000"
    and "0 \<le> x" and "x \<le> 1000" and "0 \<le> y" and "y \<le> 1000"
  shows "0 \<le> xmin (drawingRect r x y) \<and> xmin (drawingRect r x y) \<le> xmax (drawingRect r x y) \<and>
         xmax (drawingRect r x y) \<le> 1000 \<and>
         0 \<le> ymin (drawingRect r x y) \<and> ymin (drawingRect r x y) \<le> ymax (drawingRect r x y) \<and>
         ymax (drawingRect r x y) \<le> 1000"
  using assms by (simp add: drawingRect_def max_def min_def)

lemma drawingRect_envelope:
  "drawingRect initial x y = envelope (xmin initial, ymin initial) (x, y)"
  by (simp add: drawingRect_def envelope_def)

lemma envelope_commute: "envelope a b = envelope b a"
  by (simp add: envelope_def min.commute max.commute)

text \<open>
  A draw that starts with no selection. Under the select tool, with no selection, a
  pointer-down on the background at the point \<open>A\<close> followed by any run of moves that ends
  at the point \<open>B\<close> leaves the min/max envelope of \<open>A\<close> and \<open>B\<close> as the selection, and so
  does a pointer-down at \<open>B\<close> followed by any run of moves that ends at \<open>A\<close>.
\<close>

lemma drawing_envelope_fresh:
  assumes "tool s = Select" and "selection s = None"
    and "getNormalizedCoordinates (imageCanvas s) a = A"
    and "getNormalizedCoordinates (imageCanvas s) b = B"
  shows "selection (pointerMoves (es @ [b]) (pointerDown Background a s)) = Some (envelope A B) \<and>
         selection (pointerMoves (es' @ [a]) (pointerDown Background b s)) = Some (envelope A B)"
proof -
  obtain ax ay bx by' where A: "A = (ax, ay)" and B: "B = (bx, by')"
    by (cases A, cases B) auto
  have "selection (pointerMoves (es @ [b]) (pointerDown Background a s)) =
          Some (newRect Drawing \<lparr> xmin = ax, ymin = ay, xmax = ax, ymax = ay \<rparr> bx by'
                  (bx - ax) (by' - ay))"
    using assms A B
    by (subst pointerMoves_select [where sx = ax and sy = ay and x = bx and y = by'
          and initial = "\<lparr> xmin = ax, ymin = ay, xmax = ax, ymax = ay \<rparr>"])
       (simp_all add: background_down_fresh [where x = ax and y = ay])
  moreover have "selection (pointerMoves (es' @ [a]) (pointerDown Background b s)) =
          Some (newRect Drawing \<lparr> xmin = bx, ymin = by', xmax = bx, ymax = by' \<rparr> ax ay
                  (ax - bx) (ay - by'))"
    using assms A B
    by (subst pointerMoves_select [where sx = bx and sy = by' and x = ax and y = ay
          and initial = "\<lparr> xmin = bx, ymin = by', xmax = bx, ymax = by' \<rparr>"])
       (simp_all add: background_down_fresh [where x = bx and y = by'])
  ultimately show ?thesis
    by (simp add: newRect_def drawingRect_envelope A B envelope_commute [of "(bx, by')"])
qed

text \<open>From (500, 500) to (600, 700), and back by way of a third point.\<close>

lemma drawing_envelope_fresh_witness:
  "selection (pointerMoves [pointerAt 480 840]
       (pointerDown Background (pointerAt 400 616) addSession))
     = Some \<lparr> xmin = 500, ymin = 500, xmax = 600, ymax = 700 \<rparr> \<and>
   selection (pointerMoves [pointerAt 300 300, pointerAt 400 616]
       (pointerDown Background (pointerAt 480 840) addSession))
     = Some \<lparr> xmin = 500, ymin = 500, xmax = 600, ymax = 700 \<rparr>"
  using drawing_envelope_fresh [of addSession "pointerAt 400 616" "(500, 500)"
      "pointerAt 480 840" "(600, 700)" "[]" "[pointerAt 300 300]"]
  by (simp add: addSession_fields canvasA_coordinates envelope_def)

text \<open>
  C7 at a concrete pair of draws. In the session that already holds the rectangle (100,
  100, 300, 300), a draw on the background from (500, 500) to (600, 700) and the draw
  from (600, 700) to (500, 500): the drawing branch takes the corner (100, 100) of the
  old rectangle, which \<open>startDragState\<close> has kept as the snapshot, for the anchor, and
  never reads the point of the pointer-down. The two directions give different
  rectangles, neither of them the envelope of the two points.
\<close>

theorem drawing_anchor_stale:
  "selection (pointerMoves [pointerAt 480 840]
       (pointerDown Background (pointerAt 400 616) boxSession))
     = Some \<lparr> xmin = 100, ymin = 100, xmax = 600, ymax = 700 \<rparr> \<and>
   selection (pointerMoves [pointerAt 400 616]
       (pointerDown Background (pointerAt 480 840) boxSession))
     = Some \<lparr> xmin = 100, ymin = 100, xmax = 500, ymax = 500 \<rparr> \<and>
   getNormalizedCoordinates (imageCanvas boxSession) (pointerAt 400 616) = (500, 500) \<and>
   getNormalizedCoordinates (imageCanvas boxSession) (pointerAt 480 840) = (600, 700) \<and>
   envelope (500, 500) (600, 700) = \<lparr> xmin = 500, ymin = 500, xmax = 600, ymax = 700 \<rparr>"
proof -
  have c: "getNormalizedCoordinates (imageCanvas boxSession) (pointerAt 400 616) = (500, 500)"
    "getNormalizedCoordinates (imageCanvas boxSession) (pointerAt 480 840) = (600, 700)"
    by (simp_all add: boxSession_fields canvasA_coordinates)
  have "selection (pointerMoves ([] @ [pointerAt 480 840])
       (pointerDown Background (pointerAt 400 616) boxSession))
     = Some (newRect Drawing boxA 600 700 (600 - 500) (700 - 500))"
    by (subst pointerMoves_select [where sx = 500 and sy = 500 and x = 600 and y = 700
          and initial = boxA])
       (simp_all add: background_down_on_selection [OF boxSession_fields(1,2) c(1)]
          boxSession_fields canvasA_coordinates)
  moreover have "selection (pointerMoves ([] @ [pointerAt 400 616])
       (pointerDown Background (pointerAt 480 840) boxSession))
     = Some (newRect Drawing boxA 500 500 (500 - 600) (500 - 700))"
    by (subst pointerMoves_select [where sx = 600 and sy = 700 and x = 500 and y = 500
          and initial = boxA])
       (simp_all add: background_down_on_selection [OF boxSession_fields(1,2) c(2)]
          boxSession_fields canvasA_coordinates)
  ultimately show ?thesis
    using c by (simp add: newRect_def drawingRect_def boxA_def envelope_def)
qed

subsection \<open>A click on the background\<close>

text \<open>
  C10, for a session with no selection. Under the select tool, with no selection, a
  pointer-down on the background at the normalized point \<open>(x, y)\<close> makes the selection the
  degenerate rectangle at that point and tells the host that there is a selection. A
  pointer-up with no move in between clears the selection again and tells the host so:
  the host hears \<open>true\<close>, then \<open>false\<close>. When moves come in between and the last of them
  is less than 10 units away from \<open>(x, y)\<close> across or down, the pointer-up clears the
  selection as well; the host has heard \<open>true\<close> once more for every move, and then hears
  \<open>false\<close>.
\<close>

theorem background_click_fresh:
  assumes "tool s = Select" and "selection s = None"
    and "getNormalizedCoordinates (imageCanvas s) e = (x, y)"
  shows "selection (pointerDown Background e s) =
           Some \<lparr> xmin = x, ymin = y, xmax = x, ymax = y \<rparr> \<and>
         hostCalls (pointerDown Background e s) = hostCalls s @ [OnSelectionChange True] \<and>
         selection (handlePointerUp e' (pointerDown Background e s)) = None \<and>
         hostCalls (handlePointerUp e' (pointerDown Background e s)) =
           hostCalls s @ [OnSelectionChange True, OnSelectionChange False] \<and>
         (\<forall>es m x' y'.
            getNormalizedCoordinates (imageCanvas s) m = (x', y') \<and>
            (\<bar>x' - x\<bar> < 10 \<or> \<bar>y' - y\<bar> < 10) \<longrightarrow>
            selection (handlePointerUp e' (pointerMoves (es @ [m]) (pointerDown Background e s)))
              = None \<and>
            hostCalls (handlePointerUp e' (pointerMoves (es @ [m]) (pointerDown Background e s)))
              = hostCalls s @ replicate (length es + 2) (OnSelectionChange True)
                  @ [OnSelectionChange False])"
proof -
  let ?d = "pointerDown Background e s"
  let ?p = "\<lparr> xmin = x, ymin = y, xmax = x, ymax = y \<rparr>"
  note d = background_down_fresh [OF assms]
  have frame: "tool ?d = Select" "interactionMode ?d = Drawing"
    "dragStartPoint ?d = Some (x, y)" "initialSelectionRef ?d = Some ?p"
    "imageCanvas ?d = imageCanvas s" "selection ?d = Some ?p"
    "hostCalls ?d = hostCalls s @ [OnSelectionChange True]"
    using assms(1) by (simp_all add: d)
  have up: "selection (handlePointerUp e' ?d) = None"
    "hostCalls (handlePointerUp e' ?d) = hostCalls s @ [OnSelectionChange True, OnSelectionChange False]"
    using assms(1) by (simp_all add: d handlePointerUp_def Let_def setSelection_def)
  have moved: "selection (handlePointerUp e' (pointerMoves (es @ [m]) ?d)) = None \<and>
        hostCalls (handlePointerUp e' (pointerMoves (es @ [m]) ?d))
          = hostCalls s @ replicate (length es + 2) (OnSelectionChange True)
              @ [OnSelectionChange False]"
    if m: "getNormalizedCoordinates (imageCanvas s) m = (x', y')"
      and small: "\<bar>x' - x\<bar> < 10 \<or> \<bar>y' - y\<bar> < 10" for es m x' y'
  proof -
    let ?t = "pointerMoves (es @ [m]) ?d"
    have sel: "selection ?t = Some (drawingRect ?p x' y')"
      using pointerMoves_select [of ?d x y ?p m x' y' es] frame m by (simp add: newRect_def)
    have calls: "hostCalls ?t = hostCalls s @ replicate (length es + 2) (OnSelectionChange True)"
      using pointerMoves_calls [of ?d "(x, y)" ?p "es @ [m]"] frame
      by (simp add: replicate_append_same)
    have mode: "interactionMode ?t = Drawing"
      using pointerMoves_frame [of "es @ [m]" ?d] frame by simp
    have "\<bar>max x x' - min x x'\<bar> < 10 \<or> \<bar>max y y' - min y y'\<bar> < 10"
      using small by (auto simp: max_def min_def)
    then show ?thesis
      using sel calls mode
      by (simp add: handlePointerUp_def Let_def setSelection_def drawingRect_def)
  qed
  show ?thesis
    using frame(6,7) up moved by blast
qed

text \<open>A click at (500, 500) in the fresh session, and a click that slips 5 units across.\<close>

theorem background_click_fresh_witness:
  "selection (pointerDown Background (pointerAt 400 616) addSession)
     = Some \<lparr> xmin = 500, ymin = 500, xmax = 500, ymax = 500 \<rparr> \<and>
   hostCalls (handlePointerUp (pointerAt 400 616)
       (pointerDown Background (pointerAt 400 616) addSession))
     = [OnSelectionChange False, OnSelectionChange True, OnSelectionChange False] \<and>
   selection (handlePointerUp (pointerAt 404 896)
       (pointerMoves [pointerAt 404 896] (pointerDown Background (pointerAt 400 616) addSession)))
     = None"
proof -
  have c: "getNormalizedCoordinates (imageCanvas addSession) (pointerAt 400 616) = (500, 500)"
    "getNormalizedCoordinates (imageCanvas addSession) (pointerAt 404 896) = (505, 750)"
    by (simp_all add: addSession_fields canvasA_coordinates)
  note w = background_click_fresh [OF addSession_fields(1,2) c(1), of "pointerAt 400 616"]
  note v = background_click_fresh [OF addSession_fields(1,2) c(1), of "pointerAt 404 896",
      THEN conjunct2, THEN conjunct2, THEN conjunct2, THEN conjunct2, rule_format,
      of "pointerAt 404 896" 505 750 "[]"]
  have "selection (handlePointerUp (pointerAt 404 896)
       (pointerMoves [pointerAt 404 896] (pointerDown Background (pointerAt 400 616) addSession)))
     = None"
    using v c(2) by simp
  then show ?thesis
    using w by (simp add: addSession_fields)
qed

text \<open>
  The same click in the session that already holds the rectangle (100, 100, 300, 300),
  on the background outside it: the pointer-down creates no rectangle at (500, 500) and
  tells the host nothing, and after the pointer-up the old rectangle is still selected.
\<close>

theorem background_click_keeps_selection:
  "selection (pointerDown Background (pointerAt 400 616) boxSession) = Some boxA \<and>
   hostCalls (pointerDown Background (pointerAt 400 616) boxSession) = hostCalls boxSession \<and>
   selection (handlePointerUp (pointerAt 400 616)
       (pointerDown Background (pointerAt 400 616) boxSession)) = Some boxA \<and>
   hostCalls (handlePointerUp (pointerAt 400 616)
       (pointerDown Background (pointerAt 400 616) boxSession)) = hostCalls boxSession"
proof -
  have c: "getNormalizedCoordinates (imageCanvas boxSession) (pointerAt 400 616) = (500, 500)"
    by (simp add: boxSession_fields canvasA_coordinates)
  show ?thesis
    by (simp add: background_down_on_selection [OF boxSession_fields(1,2) c] boxSession_fields
        handlePointerUp_def Let_def boxA_def)
qed

subsection \<open>Coordinate mapping\<close>

lemma normalized_axis:
  fixes v w k :: real
  assumes "0 < w" and "0 < k"
  shows "v * (w / (k * w)) / w * 1000 = v / k / w * 1000"
    and "v * (w / (k * w)) / w * 1000 = v / (k * w) * 1000"
  using assms by (simp_all add: field_simps)

lemma client_axis:
  fixes d l p :: real
  assumes "0 < d" and "l \<le> p" and "p \<le> l + d"
  shows "l + max 0 (min 1000 ((p - l) / d * 1000)) / 10 / 100 * d = p"
proof -
  have "0 \<le> (p - l) / d * 1000" using assms by simp
  moreover have "(p - l) / d * 1000 \<le> 1000" using assms by (simp add: field_simps)
  ultimately have "max 0 (min 1000 ((p - l) / d * 1000)) = (p - l) / d * 1000"
    by simp
  then show ?thesis using assms by (simp add: field_simps)
qed

text \<open>
  C8, in exact arithmetic. For a raster of positive intrinsic size displayed at a scale
  \<open>k\<close> between 0.1 and 10, \<open>getNormalizedCoordinates\<close> takes the offset of the pointer in
  the displayed box, divides it by \<open>k\<close> (the intrinsic pixel), scales it by 1000 over the
  intrinsic size and clamps it to 0 and 1000 on both axes; and for a pointer over the
  raster, laying the result out again as the selection box is laid out gives back the
  pointer's position.
\<close>

theorem coordinate_mapping_roundtrip:
  assumes "0 < canvasWidth c" and "0 < canvasHeight c"
    and "rectWidth c = k * canvasWidth c" and "rectHeight c = k * canvasHeight c"
    and "1 / 10 \<le> k" and "k \<le> 10"
  shows "getNormalizedCoordinates (Some c) e =
           (max 0 (min 1000 ((clientX e - rectLeft c) / k / canvasWidth c * 1000)),
            max 0 (min 1000 ((clientY e - rectTop c) / k / canvasHeight c * 1000))) \<and>
         0 \<le> fst (getNormalizedCoordinates (Some c) e) \<and>
         fst (getNormalizedCoordinates (Some c) e) \<le> 1000 \<and>
         0 \<le> snd (getNormalizedCoordinates (Some c) e) \<and>
         snd (getNormalizedCoordinates (Some c) e) \<le> 1000 \<and>
         (rectLeft c \<le> clientX e \<and> clientX e \<le> rectLeft c + rectWidth c \<and>
          rectTop c \<le> clientY e \<and> clientY e \<le> rectTop c + rectHeight c \<longrightarrow>
          toClient c (getNormalizedCoordinates (Some c) e) = (clientX e, clientY e))"
proof -
  have k: "0 < k" using assms(5) by simp
  have d: "0 < rectWidth c" "0 < rectHeight c"
    using assms(1-4) k by simp_all
  have n: "getNormalizedCoordinates (Some c) e =
      (max 0 (min 1000 ((clientX e - rectLeft c) / k / canvasWidth c * 1000)),
       max 0 (min 1000 ((clientY e - rectTop c) / k / canvasHeight c * 1000)))"
    unfolding getNormalizedCoordinates_def Let_def option.case assms(3,4)
    by (simp only: normalized_axis(1) [OF assms(1) k] normalized_axis(1) [OF assms(2) k])
  have n': "getNormalizedCoordinates (Some c) e =
      (max 0 (min 1000 ((clientX e - rectLeft c) / rectWidth c * 1000)),
       max 0 (min 1000 ((clientY e - rectTop c) / rectHeight c * 1000)))"
    unfolding getNormalizedCoordinates_def Let_def option.case assms(3,4)
    by (simp only: normalized_axis(2) [OF assms(1) k] normalized_axis(2) [OF assms(2) k])
  have rt: "toClient c (getNormalizedCoordinates (Some c) e) = (clientX e, clientY e)"
    if "rectLeft c \<le> clientX e" and "clientX e \<le> rectLeft c + rectWidth c"
      and "rectTop c \<le> clientY e" and "clientY e \<le> rectTop c + rectHeight c"
    unfolding n' toClient_def fst_conv snd_conv
    using client_axis [OF d(1) that(1,2)] client_axis [OF d(2) that(3,4)] by simp
  have bounds: "0 \<le> fst (getNormalizedCoordinates (Some c) e)"
    "fst (getNormalizedCoordinates (Some c) e) \<le> 1000"
    "0 \<le> snd (getNormalizedCoordinates (Some c) e)"
    "snd (getNormalizedCoordinates (Some c) e) \<le> 1000"
    unfolding n by simp_all
  show ?thesis
    using n bounds rt by blast
qed

text \<open>The raster of the session, shown at scale 0.4: a point over it, and one beside it.\<close>

theorem coordinate_mapping_roundtrip_witness:
  "getNormalizedCoordinates (Some canvasA) (pointerAt 400 616) = (500, 500) \<and>
   toClient canvasA (getNormalizedCoordinates (Some canvasA) (pointerAt 400 616)) = (400, 616) \<and>
   getNormalizedCoordinates (Some canvasA) (pointerAt 900 0) = (1000, 0)"
proof -
  have h: "0 < canvasWidth canvasA" "0 < canvasHeight canvasA"
    "rectWidth canvasA = (2 / 5) * canvasWidth canvasA"
    "rectHeight canvasA = (2 / 5) * canvasHeight canvasA"
    "(1::real) / 10 \<le> 2 / 5" "(2::real) / 5 \<le> 10"
    by (simp_all add: canvasA_def)
  note w = coordinate_mapping_roundtrip [OF h]
  have a: "getNormalizedCoordinates (Some canvasA) (pointerAt 400 616) = (500, 500)"
    using w [of "pointerAt 400 616", THEN conjunct1] by (simp add: canvasA_def)
  have b: "getNormalizedCoordinates (Some canvasA) (pointerAt 900 0) = (1000, 0)"
    using w [of "pointerAt 900 0", THEN conjunct1] by (simp add: canvasA_def)
  have "toClient canvasA (getNormalizedCoordinates (Some canvasA) (pointerAt 400 616)) =
      (clientX (pointerAt 400 616), clientY (pointerAt 400 616))"
    by (rule w [of "pointerAt 400 616", THEN conjunct2, THEN conjunct2, THEN conjunct2,
          THEN conjunct2, THEN conjunct2, THEN mp])
       (simp add: canvasA_def)
  then show ?thesis using a b by simp
qed

subsection \<open>The default zoom\<close>

text \<open>Once the latch is set, no layout pass writes the zoom or resets the latch.\<close>

lemma calculateLayout_latched:
  assumes "hasInitializedZoom s"
  shows "zoom (calculateLayout b s) = zoom s \<and> hasInitializedZoom (calculateLayout b s)"
  using assms
  by (simp add: calculateLayout_def Let_def split: option.splits)

text \<open>A pass of the resize observer never writes the zoom.\<close>

lemma calculateLayout_preserve_zoom:
  "zoom (calculateLayout True s) = zoom s"
  by (simp add: calculateLayout_def Let_def split: option.splits)

lemma layoutEvent_latched:
  assumes "hasInitializedZoom s"
  shows "zoom (layoutEvent ev s) = zoom s \<and> hasInitializedZoom (layoutEvent ev s)"
proof (cases ev)
  case (Resized w h)
  let ?t = "s\<lparr> container :=
      map_option (\<lambda>c. c\<lparr> clientWidth := w, clientHeight := h \<rparr>) (container s) \<rparr>"
  have "hasInitializedZoom ?t" using assms by simp
  from calculateLayout_latched [OF this, of True] show ?thesis
    by (simp add: layoutEvent_def containerResized_def Resized)
next
  case (PageChanged i)
  let ?t = "s\<lparr> currentPageIndex := i \<rparr>"
  have "hasInitializedZoom ?t" using assms by simp
  from calculateLayout_latched [OF this, of False] show ?thesis
    by (simp add: layoutEvent_def pageChanged_def PageChanged)
qed

lemma layoutEvents_latched:
  assumes "hasInitializedZoom s"
  shows "zoom (layoutEvents evs s) = zoom s"
  using assms
proof (induction evs arbitrary: s)
  case Nil
  then show ?case by (simp add: layoutEvents_def)
next
  case (Cons ev evs)
  from Cons.IH [of "layoutEvent ev s"] layoutEvent_latched [OF Cons.prems, of ev]
  show ?case by (simp add: layoutEvents_def)
qed

text \<open>
  A resize of the container in default mode does fit the page again: only the zoom is
  left alone.
\<close>

lemma containerResized_fitScale:
  assumes "container s = Some c" and "currentPage s = Some page"
    and "0 < w" and "0 < h" and "hasInitializedZoom s"
  shows "fitScale (containerResized w h s) = min (w / pageWidth page) (h / pageHeight page)"
  using assms
  by (auto simp add: containerResized_def calculateLayout_def currentPage_def Let_def
      split: if_splits)

lemma first_layout_default:
  assumes "container s = Some c" and "currentPage s = Some page"
    and "0 < clientWidth c" and "0 < clientHeight c"
    and "\<not> hasInitializedZoom s" and "\<not> (isEditing s \<and> initialRect s \<noteq> None)"
  shows "fitScale (calculateLayout False s) =
           min (clientWidth c / pageWidth page) (clientHeight c / pageHeight page)"
    and "zoom (calculateLayout False s) =
           (if clientHeight c / pageHeight page < clientWidth c / pageWidth page
            then max (min ((clientWidth c / pageWidth page) / (clientHeight c / pageHeight page)) 3) 1
            else 1)"
    and "hasInitializedZoom (calculateLayout False s)"
  using assms
  by (auto simp add: calculateLayout_def Let_def split: option.splits)

text \<open>
  C9. In the first layout pass of a session outside the edit-mode seeding (latch not yet
  set, container and page of positive size), the fit scale is the smaller of
  \<open>scaleX = containerWidth / pageWidth\<close> and \<open>scaleY = containerHeight / pageHeight\<close>; the
  zoom is \<open>scaleX / scaleY\<close> capped at 3 and floored at 1 when \<open>scaleY < scaleX\<close> and 1
  otherwise; and the latch is set. The zoom is then the same after every run of later
  events, each a resize of the container to any size or a change of the page. More
  generally, in any state \<open>t\<close> whose latch is set, whatever its container, page and zoom, a
  layout pass of either kind leaves the zoom and the latch as they are, while a resize
  to \<open>w\<close> by \<open>h\<close> in default mode does fit the page again, to the smaller of \<open>w / pageWidth\<close>
  and \<open>h / pageHeight\<close>; and in any state at all a pass of the resize observer leaves
  the zoom as it is. For the page of 2000 by 2800 in the container of 800 by 600 the fit
  scale is 3/14, which is 0.2143 to four places, and the zoom is 28/15; when that
  container is then resized to 400 by 600, where the page is no longer portrait
  relative to it and the formula would give 1, the fit scale becomes 1/5 and the zoom
  stays 28/15.
\<close>

theorem default_zoom_first_layout:
  assumes "container s = Some c" and "currentPage s = Some page"
    and "0 < clientWidth c" and "0 < clientHeight c"
    and "0 < pageWidth page" and "0 < pageHeight page"
    and "\<not> hasInitializedZoom s" and "\<not> (isEditing s \<and> initialRect s \<noteq> None)"
    and "scaleX = clientWidth c / pageWidth page"
    and "scaleY = clientHeight c / pageHeight page"
  shows "fitScale (calculateLayout False s) = min scaleX scaleY \<and>
         zoom (calculateLayout False s) =
           (if scaleY < scaleX then max (min (scaleX / scaleY) 3) 1 else 1) \<and>
         1 \<le> zoom (calculateLayout False s) \<and> zoom (calculateLayout False s) \<le> 3 \<and>
         hasInitializedZoom (calculateLayout False s) \<and>
         zoom (layoutEvents evs (calculateLayout False s)) = zoom (calculateLayout False s) \<and>
         (hasInitializedZoom t \<longrightarrow>
            zoom (calculateLayout b t) = zoom t \<and> hasInitializedZoom (calculateLayout b t)) \<and>
         (hasInitializedZoom t \<and> container t = Some c' \<and> currentPage t = Some page' \<and>
          0 < w \<and> 0 < h \<longrightarrow>
            fitScale (containerResized w h t) = min (w / pageWidth page') (h / pageHeight page') \<and>
            zoom (containerResized w h t) = zoom t) \<and>
         zoom (calculateLayout True u) = zoom u \<and>
         fitScale (calculateLayout False addSession) = 3 / 14 \<and>
         \<bar>fitScale (calculateLayout False addSession) - 0.2143\<bar> < 0.0001 \<and>
         zoom (calculateLayout False addSession) = 28 / 15 \<and>
         fitScale (containerResized 400 600 (calculateLayout False addSession)) = 1 / 5 \<and>
         zoom (containerResized 400 600 (calculateLayout False addSession)) = 28 / 15"
proof -
  note f = first_layout_default [OF assms(1-4,7,8)]
  have z: "zoom (calculateLayout False s) =
      (if scaleY < scaleX then max (min (scaleX / scaleY) 3) 1 else 1)"
    using f(2) assms(9,10) by simp
  then have zr: "1 \<le> zoom (calculateLayout False s)" "zoom (calculateLayout False s) \<le> 3"
    by (simp_all add: max_def min_def)
  have later: "zoom (layoutEvents evs (calculateLayout False s)) = zoom (calculateLayout False s)"
    using layoutEvents_latched [OF f(3)] .
  have latched: "hasInitializedZoom t \<longrightarrow>
      zoom (calculateLayout b t) = zoom t \<and> hasInitializedZoom (calculateLayout b t)"
    using calculateLayout_latched [of t b] by blast
  have resized: "hasInitializedZoom t \<and> container t = Some c' \<and> currentPage t = Some page' \<and>
      0 < w \<and> 0 < h \<longrightarrow>
      fitScale (containerResized w h t) = min (w / pageWidth page') (h / pageHeight page') \<and>
      zoom (containerResized w h t) = zoom t"
    using containerResized_fitScale [of t c' page' w h]
      layoutEvent_latched [of t "Resized w h"]
    by (auto simp: layoutEvent_def)
  note a = first_layout_default [OF addSession_layout(1,2) _ _ addSession_layout(3,4)]
  have scen: "fitScale (calculateLayout False addSession) = 3 / 14"
    "zoom (calculateLayout False addSession) = 28 / 15"
    using a(1) a(2) by (simp_all add: viewA_def pageA_def)
  have near: "\<bar>fitScale (calculateLayout False addSession) - 0.2143\<bar> < 0.0001"
    unfolding scen(1) by simp
  have ac: "container (calculateLayout False addSession) = Some viewA"
    "currentPage (calculateLayout False addSession) = Some pageA"
    by (simp_all add: calculateLayout_def addSession_def mountCropper_def currentPage_def
        viewA_def pageA_def setSelection_def Let_def)
  have "hasInitializedZoom (calculateLayout False addSession)"
    using a(3) by (simp add: viewA_def)
  then have scen2: "fitScale (containerResized 400 600 (calculateLayout False addSession)) = 1 / 5"
    "zoom (containerResized 400 600 (calculateLayout False addSession)) = 28 / 15"
    using containerResized_fitScale [OF ac, of 400 600]
      layoutEvent_latched [of "calculateLayout False addSession" "Resized 400 600"] scen(2)
    by (simp_all add: layoutEvent_def pageA_def)
  show ?thesis
    using f(1) f(3) assms(9,10) z zr later latched resized
      calculateLayout_preserve_zoom [of u] scen near scen2
    by simp
qed

text \<open>
  The add-mode session: its first layout; then the container narrowed to 400 by 600, the
  page changed and the container widened again; and, on its own, the narrowing, after
  which the page is fitted by its width while the zoom is still that of the first
  layout.
\<close>

theorem default_zoom_first_layout_witness:
  "fitScale (calculateLayout False addSession) = min (800 / 2000) (600 / 2800) \<and>
   zoom (calculateLayout False addSession) = 28 / 15 \<and>
   hasInitializedZoom (calculateLayout False addSession) \<and>
   zoom (layoutEvents [Resized 400 600, PageChanged 0, Resized 1200 600]
           (calculateLayout False addSession)) = 28 / 15 \<and>
   fitScale (containerResized 400 600 (calculateLayout False addSession)) = min (400 / 2000) (600 / 2800) \<and>
   zoom (containerResized 400 600 (calculateLayout False addSession)) = 28 / 15 \<and>
   zoom (calculateLayout True (calculateLayout False addSession)) = 28 / 15"
proof -
  have h: "0 < clientWidth viewA" "0 < clientHeight viewA"
    "0 < pageWidth pageA" "0 < pageHeight pageA"
    by (simp_all add: viewA_def pageA_def)
  have v: "clientWidth viewA / pageWidth pageA = 2 / 5"
    "clientHeight viewA / pageHeight pageA = 3 / 14"
    by (simp_all add: viewA_def pageA_def)
  have ac: "container (calculateLayout False addSession) = Some viewA"
    "currentPage (calculateLayout False addSession) = Some pageA"
    by (simp_all add: calculateLayout_def addSession_def mountCropper_def currentPage_def
        viewA_def pageA_def setSelection_def Let_def)
  note w = default_zoom_first_layout [OF addSession_layout(1,2) h addSession_layout(3,4) refl refl,
      of "[Resized 400 600, PageChanged 0, Resized 1200 600]"
         "calculateLayout False addSession" True viewA pageA 400 600
         "calculateLayout False addSession", unfolded v]
  have first: "fitScale (calculateLayout False addSession) = min (2 / 5) (3 / 14)"
    "zoom (calculateLayout False addSession) = 28 / 15"
    "hasInitializedZoom (calculateLayout False addSession)"
    "zoom (layoutEvents [Resized 400 600, PageChanged 0, Resized 1200 600]
           (calculateLayout False addSession)) = zoom (calculateLayout False addSession)"
    using w by simp_all
  have pass: "zoom (calculateLayout True (calculateLayout False addSession)) =
      zoom (calculateLayout False addSession)"
    using w first(3) by blast
  have narrow: "fitScale (containerResized 400 600 (calculateLayout False addSession)) =
        min (400 / pageWidth pageA) (600 / pageHeight pageA)"
    "zoom (containerResized 400 600 (calculateLayout False addSession)) =
        zoom (calculateLayout False addSession)"
    using w first(3) ac by simp_all
  show ?thesis
    using first pass narrow by (simp add: pageA_def)
qed

end
